theory Spec2Isabelle
  imports Main
begin

section \<open>The WhatsApp menu bot of whatsapp-chatbot-backend/index.js\<close>

text \<open>
  A shallow embedding of \<^verbatim>\<open>index.js\<close>. The module-level variables of the script
  (\<^verbatim>\<open>conversations\<close>, \<^verbatim>\<open>sheets\<close>), the objects it allocates, the timers it arms
  and everything it does to the outside (spreadsheet appends, transport sends, error
  log lines, backoff waits) are fields of one record, \<open>world\<close>, that every
  function takes and returns.

  Modelling decisions:
  \<^item> JavaScript strings are \<open>string\<close>; a character outside ASCII is the bytes of its
    UTF-8 encoding. Every literal of the script is ASCII.
  \<^item> \<^verbatim>\<open>String.prototype.toLowerCase\<close> is applied to the text of the counterparty and
    follows the Unicode tables of the host, which are not part of the script. It is a
    component of the world, \<open>toLowerCase w\<close>, that no operation changes: every
    theorem holds whatever function it is.
  \<^item> \<^verbatim>\<open>String.prototype.trim\<close> is applied by \<^verbatim>\<open>formatMenu\<close> only, to titles and
    menu items that are literals of the script; it is modelled on the ASCII white space.
  \<^item> A \<^verbatim>\<open>Conversation\<close> object lives at an address of \<open>heap\<close>, and the
    \<^verbatim>\<open>conversations\<close> Map holds addresses, so a handler that still holds \<^verbatim>\<open>conv\<close>
    after \<^verbatim>\<open>conversations.delete(jid)\<close> mutates the detached object, as the script does.
  \<^item> \<^verbatim>\<open>setTimeout\<close> adds a live timer to \<open>timers\<close>, \<^verbatim>\<open>clearTimeout\<close> removes it;
    the event loop firing a live timer is the function \<open>fireTimer\<close>.
  \<^item> Whether a remote append or a transport send throws is decided by the
    environment: \<open>appendOk w k\<close> says whether the \<open>k\<close>-th remote append succeeds,
    \<open>sendOk w k\<close> whether the \<open>k\<close>-th transport send does.
  \<^item> One call of \<^verbatim>\<open>handleMessage\<close> or of a timer callback is one step: the callbacks
    of other events that the event loop could run at an \<^verbatim>\<open>await\<close> are not interleaved.
\<close>

subsection \<open>Strings\<close>

definition digitChar :: "nat \<Rightarrow> char" where
  "digitChar d = char_of (48 + d)"

text \<open>Decimal rendering of a number in a template literal.\<close>

fun showNat :: "nat \<Rightarrow> string" where
  "showNat n = (if n < 10 then [digitChar n] else showNat (n div 10) @ [digitChar (n mod 10)])"

declare showNat.simps [simp del]

definition isWhiteSpace :: "char \<Rightarrow> bool" where
  "isWhiteSpace c \<longleftrightarrow> c \<in> set [CHR '' '', CHR 0x09, CHR ''\<newline>'', CHR 0x0B, CHR 0x0C, CHR 0x0D]"

text \<open>\<^verbatim>\<open>String.prototype.trim\<close>: white space removed at both ends.\<close>

definition trim :: "string \<Rightarrow> string" where
  "trim s = rev (dropWhile isWhiteSpace (rev (dropWhile isWhiteSpace s)))"

text \<open>
  A lower-casing function for the example worlds. It maps the letters A to Z to a to z
  and U+212A KELVIN SIGN (the bytes E2 84 AA) to k, and leaves every other byte. These
  are all the characters that \<^verbatim>\<open>String.prototype.toLowerCase\<close> maps to ASCII
  characters other than themselves, so the lower-cased form of a text is an ASCII
  string under the one exactly when it is that string under the other.
\<close>

definition lowerChar :: "char \<Rightarrow> char" where
  "lowerChar c =
     (let n = (of_char c :: nat) in if 65 \<le> n \<and> n \<le> 90 then char_of (n + 32) else c)"

function lowerCaseUtf8 :: "string \<Rightarrow> string" where
  "lowerCaseUtf8 [] = []"
| "lowerCaseUtf8 (c # cs) =
     (if c = CHR 0xE2 \<and> take 2 cs = [CHR 0x84, CHR 0xAA]
      then CHR ''k'' # lowerCaseUtf8 (drop 2 cs)
      else lowerChar c # lowerCaseUtf8 cs)"
  by pat_completeness auto
termination
  by (relation "measure length") auto

declare lowerCaseUtf8.simps [simp del]

subsection \<open>Constants and the menu catalog\<close>

definition INACTIVITY_TIMEOUT :: nat where
  "INACTIVITY_TIMEOUT = 2 * 60 * 1000"

text \<open>
  \<^verbatim>\<open>formatMenu\<close>: the title and a colon, then one numbered line for each item, trimmed.
\<close>

definition formatMenu :: "string \<Rightarrow> string list \<Rightarrow> string" where
  "formatMenu title items =
     trim (foldl (\<lambda>message (index, item).
                    message @ showNat (index + 1) @ ''. '' @ item @ ''\<newline>'')
                 (title @ '':\<newline>'') (enumerate 0 items))"

definition MENUS_main :: "string list" where
  "MENUS_main = [''Info'', ''Chat dengan CS'', ''Akhiri percakapan'', ''Dummy Menu'', ''Produk'']"

definition MENUS_info :: "string list" where
  "MENUS_info = [''PDRB'', ''Kembali ke menu sebelumnya'']"

definition MENUS_pdrb :: "string list" where
  "MENUS_pdrb = [''Nilai PDRB sebesar 1 juta.'', ''Kembali ke menu sebelumnya'']"

definition MENUS_dummyMenu :: "string list" where
  "MENUS_dummyMenu = [''Dummy Submenu 1'', ''Kembali ke menu sebelumnya'']"

definition MENUS_dummySubmenu1 :: "string list" where
  "MENUS_dummySubmenu1 = [''Kembali ke menu sebelumnya'']"

definition MENUS_produk :: "string list" where
  "MENUS_produk = [''Produk 1'', ''Produk 2'', ''Produk 3'', ''Kembali ke menu sebelumnya'']"

definition MENUS_produk1 :: "string list" where
  "MENUS_produk1 = [''Detail Produk 1'', ''Kembali ke menu sebelumnya'']"

subsection \<open>Data\<close>

type_synonym jid = string
type_synonym addr = nat
type_synonym timerId = nat

text \<open>\<^verbatim>\<open>class Conversation\<close>; \<open>timeout\<close> is \<open>None\<close> for \<^verbatim>\<open>null\<close>.\<close>

record Conversation =
  state :: string
  csActive :: bool
  timeout :: "timerId option"

text \<open>The row that \<^verbatim>\<open>appendChatLog\<close> writes: \<^verbatim>\<open>[timestamp, from, message, senderType]\<close>.\<close>

record row =
  rowTimestamp :: string
  rowFrom :: jid
  rowMessage :: string
  rowSenderType :: string

text \<open>
  What the script does to the outside, in the order it does it. \<open>SinkCall\<close> marks
  an invocation of \<^verbatim>\<open>appendChatLog\<close>; \<open>Append k r\<close> is the \<open>k\<close>-th attempt of
  \<^verbatim>\<open>sheets.spreadsheets.values.append\<close> within one invocation; \<open>Wait ms\<close> is the
  awaited \<^verbatim>\<open>setTimeout(res, ms)\<close>; \<open>LogError\<close> is a \<^verbatim>\<open>logger.error\<close> line;
  \<open>SendText\<close> is a call of \<^verbatim>\<open>sock.sendMessage\<close>.
\<close>

datatype event =
    SinkCall row
  | Append nat row
  | Wait nat
  | LogError string
  | SendText jid string

record world =
  conversations :: "jid \<rightharpoonup> addr"
  heap :: "addr \<Rightarrow> Conversation"
  nextAddr :: addr
  timers :: "timerId \<rightharpoonup> jid \<times> nat"
  nextTimer :: timerId
  sheets :: bool
  appendOk :: "nat \<Rightarrow> bool"
  appendN :: nat
  sendOk :: "nat \<Rightarrow> bool"
  sendN :: nat
  toLowerCase :: "string \<Rightarrow> string"
  trace :: "event list"

text \<open>The inbound message of the transport, as far as the script reads it.\<close>

record extendedText =
  extText :: "string option"

record payload =
  conversation :: "string option"
  extendedTextMessage :: "extendedText option"

record msg =
  message :: "payload option"
  fromMe :: bool
  remoteJid :: jid

record upsert =
  messages :: "msg list option"
  upsertType :: string

datatype error = TypeError

subsection \<open>Projections of the trace\<close>

fun sent :: "event list \<Rightarrow> (jid \<times> string) list" where
  "sent [] = []"
| "sent (SendText j t # es) = (j, t) # sent es"
| "sent (_ # es) = sent es"

fun sinkCalls :: "event list \<Rightarrow> row list" where
  "sinkCalls [] = []"
| "sinkCalls (SinkCall r # es) = r # sinkCalls es"
| "sinkCalls (_ # es) = sinkCalls es"

fun attempts :: "event list \<Rightarrow> nat" where
  "attempts [] = 0"
| "attempts (Append k r # es) = Suc (attempts es)"
| "attempts (_ # es) = attempts es"

subsection \<open>The logging sink\<close>

text \<open>The two \<^verbatim>\<open>logger.error\<close> lines of \<^verbatim>\<open>appendChatLog\<close>.\<close>

definition appendError :: "nat \<Rightarrow> event" where
  "appendError attempt =
     LogError (''Error appending chat log (attempt '' @ showNat attempt @ ''):'')"

definition maxRetriesError :: event where
  "maxRetriesError = LogError ''Max retries reached for appending chat log.''"

text \<open>
  The \<^verbatim>\<open>for\<close> loop of \<^verbatim>\<open>appendChatLog\<close>, from \<open>attempt\<close> on: the events it
  produces when the remote appends made so far number \<open>n\<close>. A successful attempt
  leaves the loop (\<^verbatim>\<open>break\<close>); a failed one is logged, and followed by the
  "max retries" line when it was the last and by a wait of \<open>1000 * attempt\<close>
  milliseconds otherwise.
\<close>

function appendLoop :: "(nat \<Rightarrow> bool) \<Rightarrow> nat \<Rightarrow> nat \<Rightarrow> nat \<Rightarrow> row \<Rightarrow> event list" where
  "appendLoop ok n attempt retries r =
     (if attempt \<le> retries then
        Append attempt r #
        (if ok n then []
         else appendError attempt #
              (if attempt = retries
               then maxRetriesError # appendLoop ok (n + 1) (attempt + 1) retries r
               else Wait (1000 * attempt) # appendLoop ok (n + 1) (attempt + 1) retries r))
      else [])"
  by pat_completeness auto
termination
  by (relation "measure (\<lambda>(ok, n, attempt, retries, r). Suc retries - attempt)") auto

declare appendLoop.simps [simp del]

definition appendChatLog :: "world \<Rightarrow> string \<Rightarrow> jid \<Rightarrow> string \<Rightarrow> string \<Rightarrow> nat \<Rightarrow> world" where
  "appendChatLog w timestamp from messageText senderType retries =
     (let r = \<lparr>rowTimestamp = timestamp, rowFrom = from, rowMessage = messageText,
                rowSenderType = senderType\<rparr>;
          es = (if \<not> sheets w then [] else appendLoop (appendOk w) (appendN w) 1 retries r)
      in w\<lparr>appendN := appendN w + attempts es, trace := trace w @ SinkCall r # es\<rparr>)"

subsection \<open>Sending and timers\<close>

definition botSignature :: string where
  "botSignature = ''\<newline>\<newline>chat digenerate oleh bot''"

text \<open>\<^verbatim>\<open>sendMessage\<close>: a send that throws is logged and swallowed.\<close>

definition sendMessage :: "world \<Rightarrow> jid \<Rightarrow> string \<Rightarrow> bool \<Rightarrow> world" where
  "sendMessage w j messageText isBot =
     (let finalMessage = (if isBot then messageText @ botSignature else messageText)
      in w\<lparr>sendN := sendN w + 1,
            trace := trace w @ SendText j finalMessage #
                     (if sendOk w (sendN w) then [] else [LogError ''Failed to send message:''])\<rparr>)"

definition clearTimeout :: "world \<Rightarrow> timerId \<Rightarrow> world" where
  "clearTimeout w t = w\<lparr>timers := (timers w)(t := None)\<rparr>"

text \<open>\<^verbatim>\<open>setTimeout\<close> of the inactivity callback, which closes over \<^verbatim>\<open>jid\<close>.\<close>

definition setTimeout :: "world \<Rightarrow> jid \<Rightarrow> nat \<Rightarrow> timerId \<times> world" where
  "setTimeout w j delay =
     (nextTimer w, w\<lparr>timers := (timers w)(nextTimer w \<mapsto> (j, delay)), nextTimer := nextTimer w + 1\<rparr>)"

text \<open>\<^verbatim>\<open>Conversation.resetTimeout\<close> of the object at address \<open>a\<close>.\<close>

definition resetTimeout :: "world \<Rightarrow> addr \<Rightarrow> jid \<Rightarrow> world" where
  "resetTimeout w a j =
     (let w1 = (case timeout (heap w a) of None \<Rightarrow> w | Some t \<Rightarrow> clearTimeout w t);
          (t', w2) = setTimeout w1 j INACTIVITY_TIMEOUT
      in w2\<lparr>heap := (heap w2)(a := (heap w2 a)\<lparr>timeout := Some t'\<rparr>)\<rparr>)"

definition inactivityNotice :: string where
  "inactivityNotice = ''Percakapan diakhiri karena tidak ada jawaban selama 2 menit.''"

text \<open>
  The callback armed by \<^verbatim>\<open>resetTimeout\<close>, run by the event loop when timer \<open>t\<close> is
  due. A timer fires once; one that is not live does not fire.
\<close>

definition fireTimer :: "world \<Rightarrow> timerId \<Rightarrow> world" where
  "fireTimer w t =
     (case timers w t of
        None \<Rightarrow> w
      | Some (j, delay) \<Rightarrow>
          (let w1 = w\<lparr>timers := (timers w)(t := None)\<rparr>;
               w2 = sendMessage w1 j inactivityNotice True
           in w2\<lparr>conversations := (conversations w2)(j := None)\<rparr>))"

text \<open>\<^verbatim>\<open>new Conversation()\<close>.\<close>

definition newConversation :: "world \<Rightarrow> addr \<times> world" where
  "newConversation w =
     (nextAddr w,
      w\<lparr>heap := (heap w)(nextAddr w := \<lparr>state = ''main'', csActive = False, timeout = None\<rparr>),
        nextAddr := nextAddr w + 1\<rparr>)"

definition setState :: "world \<Rightarrow> addr \<Rightarrow> string \<Rightarrow> world" where
  "setState w a s = w\<lparr>heap := (heap w)(a := (heap w a)\<lparr>state := s\<rparr>)\<rparr>"

definition setCsActive :: "world \<Rightarrow> addr \<Rightarrow> bool \<Rightarrow> world" where
  "setCsActive w a b = w\<lparr>heap := (heap w)(a := (heap w a)\<lparr>csActive := b\<rparr>)\<rparr>"

definition deleteConversation :: "world \<Rightarrow> jid \<Rightarrow> world" where
  "deleteConversation w j = w\<lparr>conversations := (conversations w)(j := None)\<rparr>"

subsection \<open>The handlers of the menu states\<close>

definition invalidChoice :: string where
  "invalidChoice = ''Pilihan tidak valid. Silakan pilih menu:\<newline>''"

definition handleMainMenu :: "world \<Rightarrow> jid \<Rightarrow> string \<Rightarrow> addr \<Rightarrow> world" where
  "handleMainMenu w j messageText conv =
     (let w1 =
        (if messageText = ''1'' then
           sendMessage (setState w conv ''info'') j (formatMenu ''Menu Info'' MENUS_info) True
         else if messageText = ''2'' then
           sendMessage (setCsActive w conv True) j ''mohon tunggu sebentar.'' True
         else if messageText = ''3'' then
           deleteConversation (sendMessage w j ''Percakapan diakhiri. Terima kasih.'' True) j
         else if messageText = ''4'' then
           sendMessage (setState w conv ''dummyMenu'') j
             (formatMenu ''Dummy Menu'' MENUS_dummyMenu) True
         else if messageText = ''5'' then
           sendMessage (setState w conv ''produk'') j (formatMenu ''Produk'' MENUS_produk) True
         else
           sendMessage w j (invalidChoice @ formatMenu ''Menu'' MENUS_main) True)
      in resetTimeout w1 conv j)"

definition handleInfoMenu :: "world \<Rightarrow> jid \<Rightarrow> string \<Rightarrow> addr \<Rightarrow> world" where
  "handleInfoMenu w j messageText conv =
     (let w1 =
        (if messageText = ''1'' then
           sendMessage (setState w conv ''pdrb'') j (formatMenu ''Menu PDRB'' MENUS_pdrb) True
         else if messageText = ''2'' then
           sendMessage (setState w conv ''main'') j (formatMenu ''Menu'' MENUS_main) True
         else
           sendMessage w j (invalidChoice @ formatMenu ''Menu Info'' MENUS_info) True)
      in resetTimeout w1 conv j)"

definition handlePdrbMenu :: "world \<Rightarrow> jid \<Rightarrow> string \<Rightarrow> addr \<Rightarrow> world" where
  "handlePdrbMenu w j messageText conv =
     (let w1 =
        (if messageText = ''1'' then
           sendMessage (setState w conv ''info'') j (formatMenu ''Menu Info'' MENUS_info) True
         else
           sendMessage w j (invalidChoice @ formatMenu ''Menu PDRB'' MENUS_pdrb) True)
      in resetTimeout w1 conv j)"

definition handleDummyMenu :: "world \<Rightarrow> jid \<Rightarrow> string \<Rightarrow> addr \<Rightarrow> world" where
  "handleDummyMenu w j messageText conv =
     (let w1 =
        (if messageText = ''1'' then
           sendMessage (setState w conv ''dummySubmenu1'') j
             (formatMenu ''Dummy Submenu 1'' MENUS_dummySubmenu1) True
         else if messageText = ''2'' then
           sendMessage (setState w conv ''main'') j (formatMenu ''Menu'' MENUS_main) True
         else
           sendMessage w j (invalidChoice @ formatMenu ''Dummy Menu'' MENUS_dummyMenu) True)
      in resetTimeout w1 conv j)"

definition handleDummySubmenu1 :: "world \<Rightarrow> jid \<Rightarrow> string \<Rightarrow> addr \<Rightarrow> world" where
  "handleDummySubmenu1 w j messageText conv =
     (let w1 =
        (if messageText = ''1'' then
           sendMessage (setState w conv ''dummyMenu'') j
             (formatMenu ''Dummy Menu'' MENUS_dummyMenu) True
         else
           sendMessage w j
             (invalidChoice @ formatMenu ''Dummy Submenu 1'' MENUS_dummySubmenu1) True)
      in resetTimeout w1 conv j)"

definition handleProdukMenu :: "world \<Rightarrow> jid \<Rightarrow> string \<Rightarrow> addr \<Rightarrow> world" where
  "handleProdukMenu w j messageText conv =
     (let w1 =
        (if messageText = ''1'' then
           sendMessage (setState w conv ''produk1'') j
             (formatMenu ''Detail Produk 1'' MENUS_produk1) True
         else if messageText = ''2'' \<or> messageText = ''3'' then
           sendMessage w j (formatMenu ''Produk'' MENUS_produk) True
         else if messageText = ''4'' then
           sendMessage (setState w conv ''main'') j (formatMenu ''Menu'' MENUS_main) True
         else
           sendMessage w j (invalidChoice @ formatMenu ''Produk'' MENUS_produk) True)
      in resetTimeout w1 conv j)"

definition handleProduk1Menu :: "world \<Rightarrow> jid \<Rightarrow> string \<Rightarrow> addr \<Rightarrow> world" where
  "handleProduk1Menu w j messageText conv =
     (let w1 =
        (if messageText = ''1'' then
           sendMessage (setState w conv ''produk'') j (formatMenu ''Produk'' MENUS_produk) True
         else
           sendMessage w j
             (invalidChoice @ formatMenu ''Detail Produk 1'' MENUS_produk1) True)
      in resetTimeout w1 conv j)"

subsection \<open>The dispatcher\<close>

text \<open>
  \<^verbatim>\<open>msg.message.conversation || (ext && ext.text) || ""\<close>: the first of the two texts
  that is present and not empty, the empty string otherwise.
\<close>

definition extractText :: "payload \<Rightarrow> string" where
  "extractText p =
     (case conversation p of
        Some s \<Rightarrow> if s \<noteq> [] then s
                  else (case extendedTextMessage p of
                          None \<Rightarrow> []
                        | Some e \<Rightarrow> (case extText e of None \<Rightarrow> [] | Some t \<Rightarrow> t))
      | None \<Rightarrow> (case extendedTextMessage p of
                   None \<Rightarrow> []
                 | Some e \<Rightarrow> (case extText e of None \<Rightarrow> [] | Some t \<Rightarrow> t)))"

definition welcomeLine :: string where
  "welcomeLine = ''Halo! Selamat datang.\<newline>''"

text \<open>
  \<^verbatim>\<open>handleMessage\<close>; \<open>timestamp\<close> is what \<^verbatim>\<open>getCurrentTimestamp()\<close> returns in
  this call. For a new counterparty, \<^verbatim>\<open>conversations.get(jid)\<close> is the object stored
  three lines before, at address \<open>a\<close>.
\<close>

definition handleMessage :: "world \<Rightarrow> string \<Rightarrow> msg \<Rightarrow> world" where
  "handleMessage w timestamp m =
     (case message m of
        None \<Rightarrow> w
      | Some p \<Rightarrow>
          if fromMe m then w
          else
            (let j = remoteJid m;
                 messageText = extractText p;
                 w1 = appendChatLog w timestamp j messageText ''user'' 3
             in case conversations w1 j of
                  None \<Rightarrow>
                    (let (a, w2) = newConversation w1;
                         w3 = w2\<lparr>conversations := (conversations w2)(j \<mapsto> a)\<rparr>;
                         w4 = sendMessage w3 j (welcomeLine @ formatMenu ''Menu'' MENUS_main) True
                     in resetTimeout w4 a j)
                | Some conv \<Rightarrow>
                    if csActive (heap w1 conv) then
                      (if toLowerCase w1 messageText = ''terima kasih'' then
                         (let w2 = setState (setCsActive w1 conv False) conv ''main'';
                              w3 = sendMessage w2 j ''Percakapan kembali diambil alih oleh bot.'' True
                          in resetTimeout w3 conv j)
                       else resetTimeout w1 conv j)
                    else if state (heap w1 conv) = ''main'' then
                      handleMainMenu w1 j messageText conv
                    else if state (heap w1 conv) = ''info'' then
                      handleInfoMenu w1 j messageText conv
                    else if state (heap w1 conv) = ''pdrb'' then
                      handlePdrbMenu w1 j messageText conv
                    else if state (heap w1 conv) = ''dummyMenu'' then
                      handleDummyMenu w1 j messageText conv
                    else if state (heap w1 conv) = ''dummySubmenu1'' then
                      handleDummySubmenu1 w1 j messageText conv
                    else if state (heap w1 conv) = ''produk'' then
                      handleProdukMenu w1 j messageText conv
                    else if state (heap w1 conv) = ''produk1'' then
                      handleProduk1Menu w1 j messageText conv
                    else
                      (let w2 = setState w1 conv ''main'';
                           w3 = sendMessage w2 j (formatMenu ''Menu'' MENUS_main) True
                       in resetTimeout w3 conv j)))"

text \<open>
  The \<^verbatim>\<open>messages.upsert\<close> listener of \<^verbatim>\<open>startBot\<close>. On an empty array
  \<^verbatim>\<open>m.messages[0]\<close> is \<^verbatim>\<open>undefined\<close> and \<^verbatim>\<open>handleMessage\<close> throws at \<^verbatim>\<open>msg.message\<close>.
\<close>

definition onMessagesUpsert :: "world \<Rightarrow> string \<Rightarrow> upsert \<Rightarrow> error + world" where
  "onMessagesUpsert w timestamp m =
     (case messages m of
        None \<Rightarrow> Inr w
      | Some ms \<Rightarrow>
          if upsertType m \<noteq> ''notify'' then Inr w
          else (case ms of
                  [] \<Rightarrow> Inl TypeError
                | x # _ \<Rightarrow> Inr (handleMessage w timestamp x)))"

subsection \<open>Vocabulary of the statements\<close>

text \<open>
  The seven menu states; for each, the case labels of its handler's \<^verbatim>\<open>switch\<close>, the
  entry of \<^verbatim>\<open>MENUS\<close> stored under its name, and the title under which the script
  renders that entry.
\<close>

definition menuNodes :: "string list" where
  "menuNodes = [''main'', ''info'', ''pdrb'', ''dummyMenu'', ''dummySubmenu1'', ''produk'', ''produk1'']"

definition recognized :: "string \<Rightarrow> string list" where
  "recognized s =
     (if s = ''main'' then [''1'', ''2'', ''3'', ''4'', ''5'']
      else if s = ''info'' then [''1'', ''2'']
      else if s = ''pdrb'' then [''1'']
      else if s = ''dummyMenu'' then [''1'', ''2'']
      else if s = ''dummySubmenu1'' then [''1'']
      else if s = ''produk'' then [''1'', ''2'', ''3'', ''4'']
      else if s = ''produk1'' then [''1'']
      else [])"

definition menuTitle :: "string \<Rightarrow> string" where
  "menuTitle s =
     (if s = ''main'' then ''Menu''
      else if s = ''info'' then ''Menu Info''
      else if s = ''pdrb'' then ''Menu PDRB''
      else if s = ''dummyMenu'' then ''Dummy Menu''
      else if s = ''dummySubmenu1'' then ''Dummy Submenu 1''
      else if s = ''produk'' then ''Produk''
      else if s = ''produk1'' then ''Detail Produk 1''
      else [])"

definition MENUS :: "string \<Rightarrow> string list" where
  "MENUS s =
     (if s = ''main'' then MENUS_main
      else if s = ''info'' then MENUS_info
      else if s = ''pdrb'' then MENUS_pdrb
      else if s = ''dummyMenu'' then MENUS_dummyMenu
      else if s = ''dummySubmenu1'' then MENUS_dummySubmenu1
      else if s = ''produk'' then MENUS_produk
      else if s = ''produk1'' then MENUS_produk1
      else [])"

text \<open>
  The appends of the trace by sender kind, the fourth column of the row.
\<close>

definition botAppends :: "event list \<Rightarrow> row list" where
  "botAppends es = filter (\<lambda>r. rowSenderType r = ''bot'') (sinkCalls es)"

definition userAppends :: "event list \<Rightarrow> row list" where
  "userAppends es = filter (\<lambda>r. rowSenderType r = ''user'') (sinkCalls es)"

text \<open>
  Example inputs: a store with one conversation, in the main menu, and its timer; the
  same with the handoff flag set; the same with a spreadsheet whose first two appends
  fail; a plain text message; the text TERIMA KASIH written with U+212A KELVIN SIGN
  for its K.
\<close>

definition exampleWorld :: world where
  "exampleWorld =
     \<lparr>conversations = [''u1'' \<mapsto> 0],
      heap = (\<lambda>_. \<lparr>state = ''main'', csActive = False, timeout = Some 0\<rparr>),
      nextAddr = 1,
      timers = [0 \<mapsto> (''u1'', INACTIVITY_TIMEOUT)],
      nextTimer = 1,
      sheets = True,
      appendOk = (\<lambda>_. True),
      appendN = 0,
      sendOk = (\<lambda>_. True),
      sendN = 0,
      toLowerCase = lowerCaseUtf8,
      trace = []\<rparr>"

definition handoffWorld :: world where
  "handoffWorld =
     exampleWorld\<lparr>heap := (\<lambda>_. \<lparr>state = ''info'', csActive = True, timeout = Some 0\<rparr>)\<rparr>"

definition flakyWorld :: world where
  "flakyWorld = exampleWorld\<lparr>appendOk := (\<lambda>k. 2 \<le> k)\<rparr>"

definition kelvinThanks :: string where
  "kelvinThanks = ''TERIMA '' @ [CHR 0xE2, CHR 0x84, CHR 0xAA] @ ''ASIH''"

definition textMessage :: "jid \<Rightarrow> string \<Rightarrow> msg" where
  "textMessage j s =
     \<lparr>message = Some \<lparr>conversation = Some s, extendedTextMessage = None\<rparr>,
      fromMe = False, remoteJid = j\<rparr>"

section \<open>Properties\<close>

subsection \<open>What each operation changes\<close>

lemma sent_append [simp]: "sent (xs @ ys) = sent xs @ sent ys"
  by (induction xs rule: sent.induct) simp_all

lemma sinkCalls_append [simp]: "sinkCalls (xs @ ys) = sinkCalls xs @ sinkCalls ys"
  by (induction xs rule: sinkCalls.induct) simp_all

lemma attempts_append [simp]: "attempts (xs @ ys) = attempts xs + attempts ys"
  by (induction xs rule: attempts.induct) simp_all

lemma sent_appendLoop [simp]: "sent (appendLoop ok n attempt retries r) = []"
proof (induction ok n attempt retries r rule: appendLoop.induct)
  case (1 ok n attempt retries r)
  show ?case
    using "1.IH" by (subst appendLoop.simps) (simp add: appendError_def maxRetriesError_def)
qed

lemma sinkCalls_appendLoop [simp]: "sinkCalls (appendLoop ok n attempt retries r) = []"
proof (induction ok n attempt retries r rule: appendLoop.induct)
  case (1 ok n attempt retries r)
  show ?case
    using "1.IH" by (subst appendLoop.simps) (simp add: appendError_def maxRetriesError_def)
qed

text \<open>For any retry count, the loop makes no more attempts than are left.\<close>

lemma attempts_appendLoop:
  "attempts (appendLoop ok n attempt retries r) \<le> Suc retries - attempt"
proof (induction ok n attempt retries r rule: appendLoop.induct)
  case (1 ok n attempt retries r)
  show ?case
  proof (cases "attempt \<le> retries")
    case False
    then show ?thesis by (subst appendLoop.simps) simp
  next
    case le: True
    show ?thesis
    proof (cases "ok n")
      case True
      with le show ?thesis by (subst appendLoop.simps) simp
    next
      case False
      with le "1.IH"
      have "attempts (appendLoop ok (n + 1) (attempt + 1) retries r) \<le> Suc retries - (attempt + 1)"
        by (cases "attempt = retries") simp_all
      with le False show ?thesis
        by (subst appendLoop.simps) (auto simp add: appendError_def maxRetriesError_def)
    qed
  qed
qed

lemma appendLoop_done: "retries < attempt \<Longrightarrow> appendLoop ok n attempt retries r = []"
  by (subst appendLoop.simps) simp

lemma appendLoop_step:
  "attempt \<le> retries \<Longrightarrow>
   appendLoop ok n attempt retries r =
     Append attempt r #
     (if ok n then []
      else appendError attempt #
           (if attempt = retries then [maxRetriesError]
            else Wait (1000 * attempt) # appendLoop ok (n + 1) (attempt + 1) retries r))"
  by (subst appendLoop.simps) (simp add: appendLoop_done)

text \<open>The loop with the default retry count, unrolled.\<close>

lemma appendLoop_default:
  "appendLoop ok n 1 3 r =
     (if ok n then [Append 1 r]
      else if ok (n + 1) then [Append 1 r, appendError 1, Wait 1000, Append 2 r]
      else if ok (n + 2) then
        [Append 1 r, appendError 1, Wait 1000, Append 2 r, appendError 2, Wait 2000, Append 3 r]
      else
        [Append 1 r, appendError 1, Wait 1000, Append 2 r, appendError 2, Wait 2000, Append 3 r,
         appendError 3, maxRetriesError])"
proof -
  have s3: "appendLoop ok (n + 2) 3 3 r =
              Append 3 r # (if ok (n + 2) then [] else [appendError 3, maxRetriesError])"
    using appendLoop_step [of 3 3 ok "n + 2" r] by simp
  have s2: "appendLoop ok (n + 1) 2 3 r =
              Append 2 r # (if ok (n + 1) then []
                            else appendError 2 # Wait 2000 # appendLoop ok (n + 2) 3 3 r)"
    using appendLoop_step [of 2 3 ok "n + 1" r] by (simp add: add.assoc)
  have s1: "appendLoop ok n 1 3 r =
              Append 1 r # (if ok n then []
                            else appendError 1 # Wait 1000 # appendLoop ok (n + 1) 2 3 r)"
    using appendLoop_step [of 1 3 ok n r] by (simp add: numeral_2_eq_2)
  show ?thesis
    unfolding s1 s2 s3 by simp
qed

lemma showNat_digits:
  "showNat (Suc 0) = ''1''" "showNat 1 = ''1''" "showNat 2 = ''2''" "showNat 3 = ''3''"
  by code_simp+

lemma appendChatLog_fields [simp]:
  "conversations (appendChatLog w ts j t k n) = conversations w"
  "heap (appendChatLog w ts j t k n) = heap w"
  "nextAddr (appendChatLog w ts j t k n) = nextAddr w"
  "timers (appendChatLog w ts j t k n) = timers w"
  "nextTimer (appendChatLog w ts j t k n) = nextTimer w"
  "sheets (appendChatLog w ts j t k n) = sheets w"
  "appendOk (appendChatLog w ts j t k n) = appendOk w"
  "sendOk (appendChatLog w ts j t k n) = sendOk w"
  "toLowerCase (appendChatLog w ts j t k n) = toLowerCase w"
  "sendN (appendChatLog w ts j t k n) = sendN w"
  by (simp_all add: appendChatLog_def Let_def)

lemma appendChatLog_sent [simp]:
  "sent (trace (appendChatLog w ts j t k n)) = sent (trace w)"
  by (simp add: appendChatLog_def Let_def)

lemma appendChatLog_sinkCalls [simp]:
  "sinkCalls (trace (appendChatLog w ts j t k n)) =
     sinkCalls (trace w) @ [\<lparr>rowTimestamp = ts, rowFrom = j, rowMessage = t, rowSenderType = k\<rparr>]"
  by (simp add: appendChatLog_def Let_def)

lemma sendMessage_fields [simp]:
  "conversations (sendMessage w j t b) = conversations w"
  "heap (sendMessage w j t b) = heap w"
  "nextAddr (sendMessage w j t b) = nextAddr w"
  "timers (sendMessage w j t b) = timers w"
  "nextTimer (sendMessage w j t b) = nextTimer w"
  "sheets (sendMessage w j t b) = sheets w"
  "appendOk (sendMessage w j t b) = appendOk w"
  "appendN (sendMessage w j t b) = appendN w"
  "sendOk (sendMessage w j t b) = sendOk w"
  "toLowerCase (sendMessage w j t b) = toLowerCase w"
  "sendN (sendMessage w j t b) = sendN w + 1"
  by (simp_all add: sendMessage_def Let_def)

lemma sendMessage_sent [simp]:
  "sent (trace (sendMessage w j t b)) = sent (trace w) @ [(j, if b then t @ botSignature else t)]"
  by (simp add: sendMessage_def Let_def)

lemma sendMessage_sinkCalls [simp]:
  "sinkCalls (trace (sendMessage w j t b)) = sinkCalls (trace w)"
  by (simp add: sendMessage_def Let_def)

lemma resetTimeout_fields [simp]:
  "conversations (resetTimeout w a j) = conversations w"
  "nextAddr (resetTimeout w a j) = nextAddr w"
  "nextTimer (resetTimeout w a j) = nextTimer w + 1"
  "sheets (resetTimeout w a j) = sheets w"
  "appendOk (resetTimeout w a j) = appendOk w"
  "appendN (resetTimeout w a j) = appendN w"
  "sendOk (resetTimeout w a j) = sendOk w"
  "toLowerCase (resetTimeout w a j) = toLowerCase w"
  "sendN (resetTimeout w a j) = sendN w"
  "trace (resetTimeout w a j) = trace w"
  by (simp_all add: resetTimeout_def setTimeout_def clearTimeout_def Let_def split: option.split)

lemma resetTimeout_heap [simp]:
  "heap (resetTimeout w a j) = (heap w)(a := (heap w a)\<lparr>timeout := Some (nextTimer w)\<rparr>)"
  by (simp add: resetTimeout_def setTimeout_def clearTimeout_def Let_def split: option.split)

text \<open>The old timer of the object, if any, is cleared and a fresh one is armed.\<close>

lemma resetTimeout_timers [simp]:
  "timers (resetTimeout w a j) =
     (case timeout (heap w a) of None \<Rightarrow> timers w | Some t \<Rightarrow> (timers w)(t := None))
       (nextTimer w \<mapsto> (j, INACTIVITY_TIMEOUT))"
  by (simp add: resetTimeout_def setTimeout_def clearTimeout_def Let_def split: option.split)

lemma setState_fields [simp]:
  "conversations (setState w a s) = conversations w"
  "heap (setState w a s) = (heap w)(a := (heap w a)\<lparr>state := s\<rparr>)"
  "nextAddr (setState w a s) = nextAddr w"
  "timers (setState w a s) = timers w"
  "nextTimer (setState w a s) = nextTimer w"
  "sheets (setState w a s) = sheets w"
  "appendOk (setState w a s) = appendOk w"
  "appendN (setState w a s) = appendN w"
  "sendOk (setState w a s) = sendOk w"
  "toLowerCase (setState w a s) = toLowerCase w"
  "sendN (setState w a s) = sendN w"
  "trace (setState w a s) = trace w"
  by (simp_all add: setState_def)

lemma setCsActive_fields [simp]:
  "conversations (setCsActive w a b) = conversations w"
  "heap (setCsActive w a b) = (heap w)(a := (heap w a)\<lparr>csActive := b\<rparr>)"
  "nextAddr (setCsActive w a b) = nextAddr w"
  "timers (setCsActive w a b) = timers w"
  "nextTimer (setCsActive w a b) = nextTimer w"
  "sheets (setCsActive w a b) = sheets w"
  "appendOk (setCsActive w a b) = appendOk w"
  "appendN (setCsActive w a b) = appendN w"
  "sendOk (setCsActive w a b) = sendOk w"
  "toLowerCase (setCsActive w a b) = toLowerCase w"
  "sendN (setCsActive w a b) = sendN w"
  "trace (setCsActive w a b) = trace w"
  by (simp_all add: setCsActive_def)

lemma deleteConversation_fields [simp]:
  "conversations (deleteConversation w j) = (conversations w)(j := None)"
  "heap (deleteConversation w j) = heap w"
  "nextAddr (deleteConversation w j) = nextAddr w"
  "timers (deleteConversation w j) = timers w"
  "nextTimer (deleteConversation w j) = nextTimer w"
  "sheets (deleteConversation w j) = sheets w"
  "appendOk (deleteConversation w j) = appendOk w"
  "appendN (deleteConversation w j) = appendN w"
  "sendOk (deleteConversation w j) = sendOk w"
  "toLowerCase (deleteConversation w j) = toLowerCase w"
  "sendN (deleteConversation w j) = sendN w"
  "trace (deleteConversation w j) = trace w"
  by (simp_all add: deleteConversation_def)

lemmas handler_defs =
  handleMainMenu_def handleInfoMenu_def handlePdrbMenu_def handleDummyMenu_def
  handleDummySubmenu1_def handleProdukMenu_def handleProduk1Menu_def

lemma textMessage_simps [simp]:
  "message (textMessage j s) = Some \<lparr>conversation = Some s, extendedTextMessage = None\<rparr>"
  "fromMe (textMessage j s) = False"
  "remoteJid (textMessage j s) = j"
  by (simp_all add: textMessage_def)

lemma extractText_plain [simp]:
  "extractText \<lparr>conversation = Some s, extendedTextMessage = None\<rparr> = s"
  by (simp add: extractText_def)

text \<open>
  What \<^verbatim>\<open>handleMessage\<close> sends and what it does to the store and the objects does
  not depend on the spreadsheet client: neither on whether it was initialised nor on
  which of its appends fail.
\<close>

lemma handleMessage_sent_env:
  "sent (trace (handleMessage (w\<lparr>sheets := b, appendOk := f\<rparr>) ts m)) =
     sent (trace (handleMessage w ts m))"
  by (simp add: handleMessage_def Let_def handler_defs newConversation_def split: option.split)

lemma handleMessage_conversations_env:
  "conversations (handleMessage (w\<lparr>sheets := b, appendOk := f\<rparr>) ts m) =
     conversations (handleMessage w ts m)"
  by (simp add: handleMessage_def Let_def handler_defs newConversation_def split: option.split)

lemma handleMessage_heap_env:
  "heap (handleMessage (w\<lparr>sheets := b, appendOk := f\<rparr>) ts m) = heap (handleMessage w ts m)"
  by (simp add: handleMessage_def Let_def handler_defs newConversation_def split: option.split)

subsection \<open>Concrete values\<close>

lemma formatMenu_main:
  "formatMenu ''Menu'' MENUS_main =
     ''Menu:\<newline>1. Info\<newline>2. Chat dengan CS\<newline>3. Akhiri percakapan\<newline>4. Dummy Menu\<newline>5. Produk''"
  by code_simp

lemma lowerCaseUtf8_mixed: "lowerCaseUtf8 ''Terima KASIH'' = ''terima kasih''"
  by code_simp

lemma lowerCaseUtf8_kelvin: "lowerCaseUtf8 kelvinThanks = ''terima kasih''"
  by code_simp

lemma lowerCaseUtf8_other: "lowerCaseUtf8 ''halo'' \<noteq> ''terima kasih''"
  by code_simp

subsection \<open>The menu state machine\<close>

text \<open>
  The menu that a state is entered with is the one named by \<open>menuTitle\<close> and
  \<open>MENUS\<close>: whenever a message moves a conversation to another state, the reply is
  the new state's menu.
\<close>

lemma entering_renders_own_menu:
  assumes "message m = Some p" and "\<not> fromMe m"
    and "conversations w (remoteJid m) = Some a"
    and "state (heap w a) \<in> set menuNodes" and "\<not> csActive (heap w a)"
    and "state (heap (handleMessage w ts m) a) \<noteq> state (heap w a)"
  shows "sent (trace (handleMessage w ts m)) =
           sent (trace w) @
           [(remoteJid m,
             formatMenu (menuTitle (state (heap (handleMessage w ts m) a)))
               (MENUS (state (heap (handleMessage w ts m) a))) @ botSignature)]"
  using assms
  by (auto simp add: menuNodes_def menuTitle_def MENUS_def handleMessage_def Let_def handler_defs
      split: if_splits)

text \<open>
  C1. In each of the seven menu states, with the handoff flag off, a text that is not
  one of the state's case labels is answered by exactly one message, the invalid-choice
  line followed by the state's own menu (and the bot signature), and the conversation
  stays in the store with its state unchanged.
\<close>

theorem invalid_choice_reprompts:
  assumes "S \<in> set menuNodes"
    and "extractText p \<notin> set (recognized S)"
    and "message m = Some p" and "\<not> fromMe m"
    and "conversations w (remoteJid m) = Some a"
    and "state (heap w a) = S" and "\<not> csActive (heap w a)"
  shows "sent (trace (handleMessage w ts m)) =
           sent (trace w) @
           [(remoteJid m, invalidChoice @ formatMenu (menuTitle S) (MENUS S) @ botSignature)]
         \<and> conversations (handleMessage w ts m) (remoteJid m) = Some a
         \<and> state (heap (handleMessage w ts m) a) = S"
  using assms
  by (auto simp add: menuNodes_def recognized_def menuTitle_def MENUS_def handleMessage_def
      Let_def handler_defs)

theorem invalid_choice_reprompts_witness:
  "''main'' \<in> set menuNodes
   \<and> extractText \<lparr>conversation = Some ''9'', extendedTextMessage = None\<rparr>
       \<notin> set (recognized ''main'')
   \<and> message (textMessage ''u1'' ''9'') =
       Some \<lparr>conversation = Some ''9'', extendedTextMessage = None\<rparr>
   \<and> \<not> fromMe (textMessage ''u1'' ''9'')
   \<and> conversations exampleWorld (remoteJid (textMessage ''u1'' ''9'')) = Some 0
   \<and> state (heap exampleWorld 0) = ''main'' \<and> \<not> csActive (heap exampleWorld 0)
   \<and> sent (trace (handleMessage exampleWorld ''t'' (textMessage ''u1'' ''9''))) =
       [(''u1'', invalidChoice @ formatMenu ''Menu'' MENUS_main @ botSignature)]
   \<and> conversations (handleMessage exampleWorld ''t'' (textMessage ''u1'' ''9'')) ''u1'' = Some 0
   \<and> state (heap (handleMessage exampleWorld ''t'' (textMessage ''u1'' ''9'')) 0) = ''main''"
proof -
  have h: "''main'' \<in> set menuNodes"
    "extractText \<lparr>conversation = Some ''9'', extendedTextMessage = None\<rparr>
       \<notin> set (recognized ''main'')"
    "message (textMessage ''u1'' ''9'') =
       Some \<lparr>conversation = Some ''9'', extendedTextMessage = None\<rparr>"
    "\<not> fromMe (textMessage ''u1'' ''9'')"
    "conversations exampleWorld (remoteJid (textMessage ''u1'' ''9'')) = Some 0"
    "state (heap exampleWorld 0) = ''main''" "\<not> csActive (heap exampleWorld 0)"
    by (simp_all add: menuNodes_def recognized_def exampleWorld_def)
  from invalid_choice_reprompts [OF h, of "''t''"] h show ?thesis
    by (simp add: menuTitle_def MENUS_def exampleWorld_def)
qed

text \<open>
  C2. The table of the main menu, with the handoff flag off: "1" leads to info, "2"
  sets the handoff flag and leaves the state at main with the reply "mohon tunggu
  sebentar.", "3" removes the conversation from the store, "4" leads to dummyMenu,
  "5" to produk, and any other text is answered by the invalid-choice line and the
  main menu with the state unchanged.
\<close>

theorem main_menu_table:
  assumes "message m = Some p" and "\<not> fromMe m"
    and "conversations w (remoteJid m) = Some a"
    and "state (heap w a) = ''main''" and "\<not> csActive (heap w a)"
  shows "(extractText p = ''1'' \<longrightarrow>
            state (heap (handleMessage w ts m) a) = ''info''
          \<and> \<not> csActive (heap (handleMessage w ts m) a)
          \<and> conversations (handleMessage w ts m) (remoteJid m) = Some a
          \<and> sent (trace (handleMessage w ts m)) =
              sent (trace w) @ [(remoteJid m, formatMenu ''Menu Info'' MENUS_info @ botSignature)])
       \<and> (extractText p = ''2'' \<longrightarrow>
            csActive (heap (handleMessage w ts m) a)
          \<and> state (heap (handleMessage w ts m) a) = ''main''
          \<and> conversations (handleMessage w ts m) (remoteJid m) = Some a
          \<and> sent (trace (handleMessage w ts m)) =
              sent (trace w) @ [(remoteJid m, ''mohon tunggu sebentar.'' @ botSignature)])
       \<and> (extractText p = ''3'' \<longrightarrow>
            conversations (handleMessage w ts m) (remoteJid m) = None
          \<and> sent (trace (handleMessage w ts m)) =
              sent (trace w) @
              [(remoteJid m, ''Percakapan diakhiri. Terima kasih.'' @ botSignature)])
       \<and> (extractText p = ''4'' \<longrightarrow>
            state (heap (handleMessage w ts m) a) = ''dummyMenu''
          \<and> \<not> csActive (heap (handleMessage w ts m) a)
          \<and> conversations (handleMessage w ts m) (remoteJid m) = Some a
          \<and> sent (trace (handleMessage w ts m)) =
              sent (trace w) @
              [(remoteJid m, formatMenu ''Dummy Menu'' MENUS_dummyMenu @ botSignature)])
       \<and> (extractText p = ''5'' \<longrightarrow>
            state (heap (handleMessage w ts m) a) = ''produk''
          \<and> \<not> csActive (heap (handleMessage w ts m) a)
          \<and> conversations (handleMessage w ts m) (remoteJid m) = Some a
          \<and> sent (trace (handleMessage w ts m)) =
              sent (trace w) @ [(remoteJid m, formatMenu ''Produk'' MENUS_produk @ botSignature)])
       \<and> (extractText p \<notin> set [''1'', ''2'', ''3'', ''4'', ''5''] \<longrightarrow>
            state (heap (handleMessage w ts m) a) = ''main''
          \<and> \<not> csActive (heap (handleMessage w ts m) a)
          \<and> conversations (handleMessage w ts m) (remoteJid m) = Some a
          \<and> sent (trace (handleMessage w ts m)) =
              sent (trace w) @
              [(remoteJid m, invalidChoice @ formatMenu ''Menu'' MENUS_main @ botSignature)])"
  using assms by (simp add: handleMessage_def Let_def handleMainMenu_def)

theorem main_menu_table_witness:
  "message (textMessage ''u1'' ''2'') =
     Some \<lparr>conversation = Some ''2'', extendedTextMessage = None\<rparr>
   \<and> \<not> fromMe (textMessage ''u1'' ''2'')
   \<and> conversations exampleWorld (remoteJid (textMessage ''u1'' ''2'')) = Some 0
   \<and> state (heap exampleWorld 0) = ''main'' \<and> \<not> csActive (heap exampleWorld 0)
   \<and> extractText \<lparr>conversation = Some ''2'', extendedTextMessage = None\<rparr> = ''2''
   \<and> csActive (heap (handleMessage exampleWorld ''t'' (textMessage ''u1'' ''2'')) 0)
   \<and> state (heap (handleMessage exampleWorld ''t'' (textMessage ''u1'' ''2'')) 0) = ''main''
   \<and> conversations (handleMessage exampleWorld ''t'' (textMessage ''u1'' ''2'')) ''u1'' = Some 0
   \<and> sent (trace (handleMessage exampleWorld ''t'' (textMessage ''u1'' ''2''))) =
       [(''u1'', ''mohon tunggu sebentar.'' @ botSignature)]"
proof -
  have h: "message (textMessage ''u1'' ''2'') =
             Some \<lparr>conversation = Some ''2'', extendedTextMessage = None\<rparr>"
    "\<not> fromMe (textMessage ''u1'' ''2'')"
    "conversations exampleWorld (remoteJid (textMessage ''u1'' ''2'')) = Some 0"
    "state (heap exampleWorld 0) = ''main''" "\<not> csActive (heap exampleWorld 0)"
    by (simp_all add: exampleWorld_def)
  from main_menu_table [OF h, of "''t''"] h show ?thesis
    by (simp add: exampleWorld_def)
qed

text \<open>
  C9. From the main menu with the handoff flag off, "1" and then "2" lead through info
  back: the conversation is still in the store, its state is main again and its handoff
  flag is what it was.
\<close>

theorem main_info_roundtrip:
  assumes "message m1 = Some p1" and "\<not> fromMe m1" and "extractText p1 = ''1''"
    and "message m2 = Some p2" and "\<not> fromMe m2" and "extractText p2 = ''2''"
    and "remoteJid m2 = remoteJid m1"
    and "conversations w (remoteJid m1) = Some a"
    and "state (heap w a) = ''main''" and "\<not> csActive (heap w a)"
  shows "state (heap (handleMessage w t1 m1) a) = ''info''
       \<and> conversations (handleMessage (handleMessage w t1 m1) t2 m2) (remoteJid m1) = Some a
       \<and> state (heap (handleMessage (handleMessage w t1 m1) t2 m2) a) = state (heap w a)
       \<and> csActive (heap (handleMessage (handleMessage w t1 m1) t2 m2) a) = csActive (heap w a)"
proof -
  let ?w1 = "handleMessage w t1 m1"
  have w1: "conversations ?w1 (remoteJid m1) = Some a" "state (heap ?w1 a) = ''info''"
    "\<not> csActive (heap ?w1 a)"
    using assms by (simp_all add: handleMessage_def Let_def handleMainMenu_def)
  have "conversations (handleMessage ?w1 t2 m2) (remoteJid m1) = Some a
      \<and> state (heap (handleMessage ?w1 t2 m2) a) = ''main''
      \<and> \<not> csActive (heap (handleMessage ?w1 t2 m2) a)"
    using w1 assms(4-7) by (simp add: handleMessage_def [of ?w1] Let_def handleInfoMenu_def)
  with w1 assms show ?thesis by simp
qed

theorem main_info_roundtrip_witness:
  "message (textMessage ''u1'' ''1'') =
     Some \<lparr>conversation = Some ''1'', extendedTextMessage = None\<rparr>
   \<and> \<not> fromMe (textMessage ''u1'' ''1'')
   \<and> extractText \<lparr>conversation = Some ''1'', extendedTextMessage = None\<rparr> = ''1''
   \<and> message (textMessage ''u1'' ''2'') =
       Some \<lparr>conversation = Some ''2'', extendedTextMessage = None\<rparr>
   \<and> \<not> fromMe (textMessage ''u1'' ''2'')
   \<and> extractText \<lparr>conversation = Some ''2'', extendedTextMessage = None\<rparr> = ''2''
   \<and> remoteJid (textMessage ''u1'' ''2'') = remoteJid (textMessage ''u1'' ''1'')
   \<and> conversations exampleWorld (remoteJid (textMessage ''u1'' ''1'')) = Some 0
   \<and> state (heap exampleWorld 0) = ''main'' \<and> \<not> csActive (heap exampleWorld 0)
   \<and> state (heap (handleMessage exampleWorld ''t1'' (textMessage ''u1'' ''1'')) 0) = ''info''
   \<and> conversations
         (handleMessage (handleMessage exampleWorld ''t1'' (textMessage ''u1'' ''1'')) ''t2''
            (textMessage ''u1'' ''2'')) ''u1'' = Some 0
   \<and> state (heap
         (handleMessage (handleMessage exampleWorld ''t1'' (textMessage ''u1'' ''1'')) ''t2''
            (textMessage ''u1'' ''2'')) 0) = ''main''
   \<and> \<not> csActive (heap
         (handleMessage (handleMessage exampleWorld ''t1'' (textMessage ''u1'' ''1'')) ''t2''
            (textMessage ''u1'' ''2'')) 0)"
proof -
  have h: "message (textMessage ''u1'' ''1'') =
             Some \<lparr>conversation = Some ''1'', extendedTextMessage = None\<rparr>"
    "\<not> fromMe (textMessage ''u1'' ''1'')"
    "extractText \<lparr>conversation = Some ''1'', extendedTextMessage = None\<rparr> = ''1''"
    "message (textMessage ''u1'' ''2'') =
       Some \<lparr>conversation = Some ''2'', extendedTextMessage = None\<rparr>"
    "\<not> fromMe (textMessage ''u1'' ''2'')"
    "extractText \<lparr>conversation = Some ''2'', extendedTextMessage = None\<rparr> = ''2''"
    "remoteJid (textMessage ''u1'' ''2'') = remoteJid (textMessage ''u1'' ''1'')"
    "conversations exampleWorld (remoteJid (textMessage ''u1'' ''1'')) = Some 0"
    "state (heap exampleWorld 0) = ''main''" "\<not> csActive (heap exampleWorld 0)"
    by (simp_all add: exampleWorld_def)
  from main_info_roundtrip [OF h, of "''t1''" "''t2''"] h show ?thesis
    by simp
qed

subsection \<open>Handoff and first contact\<close>

text \<open>
  C7. While the handoff flag of a conversation is set, a text whose lower-cased form
  (under the host's \<^verbatim>\<open>toLowerCase\<close>, whatever function that is) is not
  "terima kasih" gets no reply and changes neither the flag nor the state; one whose
  lower-cased form is "terima kasih" clears the flag, sets the state to main and is
  answered by the "bot resumed" message. In both cases the old timer of the
  conversation is cleared and a fresh one is armed for the counterparty.
\<close>

theorem handoff_mode:
  assumes "message m = Some p" and "\<not> fromMe m"
    and "conversations w (remoteJid m) = Some a"
    and "csActive (heap w a)"
  shows "(toLowerCase w (extractText p) = ''terima kasih'' \<longrightarrow>
            \<not> csActive (heap (handleMessage w ts m) a)
          \<and> state (heap (handleMessage w ts m) a) = ''main''
          \<and> sent (trace (handleMessage w ts m)) =
              sent (trace w) @
              [(remoteJid m, ''Percakapan kembali diambil alih oleh bot.'' @ botSignature)])
       \<and> (toLowerCase w (extractText p) \<noteq> ''terima kasih'' \<longrightarrow>
            sent (trace (handleMessage w ts m)) = sent (trace w)
          \<and> csActive (heap (handleMessage w ts m) a)
          \<and> state (heap (handleMessage w ts m) a) = state (heap w a))
       \<and> conversations (handleMessage w ts m) (remoteJid m) = Some a
       \<and> timeout (heap (handleMessage w ts m) a) = Some (nextTimer w)
       \<and> timers (handleMessage w ts m) =
           (case timeout (heap w a) of None \<Rightarrow> timers w | Some t \<Rightarrow> (timers w)(t := None))
             (nextTimer w \<mapsto> (remoteJid m, INACTIVITY_TIMEOUT))
       \<and> toLowerCase (handleMessage w ts m) = toLowerCase w"
  using assms by (simp add: handleMessage_def Let_def split: option.split)

text \<open>
  Three texts in the handoff world: "Terima KASIH" and TERIMA KASIH with the Kelvin
  sign end the handoff, "halo" is passed over in silence.
\<close>

theorem handoff_mode_witness:
  "message (textMessage ''u1'' ''Terima KASIH'') =
     Some \<lparr>conversation = Some ''Terima KASIH'', extendedTextMessage = None\<rparr>
   \<and> message (textMessage ''u1'' kelvinThanks) =
       Some \<lparr>conversation = Some kelvinThanks, extendedTextMessage = None\<rparr>
   \<and> message (textMessage ''u1'' ''halo'') =
       Some \<lparr>conversation = Some ''halo'', extendedTextMessage = None\<rparr>
   \<and> \<not> fromMe (textMessage ''u1'' ''Terima KASIH'') \<and> \<not> fromMe (textMessage ''u1'' kelvinThanks)
   \<and> \<not> fromMe (textMessage ''u1'' ''halo'')
   \<and> conversations handoffWorld (remoteJid (textMessage ''u1'' ''Terima KASIH'')) = Some 0
   \<and> conversations handoffWorld (remoteJid (textMessage ''u1'' kelvinThanks)) = Some 0
   \<and> conversations handoffWorld (remoteJid (textMessage ''u1'' ''halo'')) = Some 0
   \<and> csActive (heap handoffWorld 0)
   \<and> toLowerCase handoffWorld
         (extractText \<lparr>conversation = Some ''Terima KASIH'', extendedTextMessage = None\<rparr>)
       = ''terima kasih''
   \<and> toLowerCase handoffWorld
         (extractText \<lparr>conversation = Some kelvinThanks, extendedTextMessage = None\<rparr>)
       = ''terima kasih''
   \<and> toLowerCase handoffWorld
         (extractText \<lparr>conversation = Some ''halo'', extendedTextMessage = None\<rparr>)
       \<noteq> ''terima kasih''
   \<and> \<not> csActive (heap (handleMessage handoffWorld ''t'' (textMessage ''u1'' ''Terima KASIH'')) 0)
   \<and> state (heap (handleMessage handoffWorld ''t'' (textMessage ''u1'' ''Terima KASIH'')) 0) = ''main''
   \<and> sent (trace (handleMessage handoffWorld ''t'' (textMessage ''u1'' ''Terima KASIH''))) =
       [(''u1'', ''Percakapan kembali diambil alih oleh bot.'' @ botSignature)]
   \<and> \<not> csActive (heap (handleMessage handoffWorld ''t'' (textMessage ''u1'' kelvinThanks)) 0)
   \<and> state (heap (handleMessage handoffWorld ''t'' (textMessage ''u1'' kelvinThanks)) 0) = ''main''
   \<and> sent (trace (handleMessage handoffWorld ''t'' (textMessage ''u1'' kelvinThanks))) =
       [(''u1'', ''Percakapan kembali diambil alih oleh bot.'' @ botSignature)]
   \<and> sent (trace (handleMessage handoffWorld ''t'' (textMessage ''u1'' ''halo''))) = []
   \<and> csActive (heap (handleMessage handoffWorld ''t'' (textMessage ''u1'' ''halo'')) 0)
   \<and> state (heap (handleMessage handoffWorld ''t'' (textMessage ''u1'' ''halo'')) 0) = ''info''
   \<and> timers (handleMessage handoffWorld ''t'' (textMessage ''u1'' ''halo'')) 0 = None
   \<and> timers (handleMessage handoffWorld ''t'' (textMessage ''u1'' ''halo'')) 1 =
       Some (''u1'', INACTIVITY_TIMEOUT)
   \<and> timers (handleMessage handoffWorld ''t'' (textMessage ''u1'' ''Terima KASIH'')) 0 = None
   \<and> timers (handleMessage handoffWorld ''t'' (textMessage ''u1'' ''Terima KASIH'')) 1 =
       Some (''u1'', INACTIVITY_TIMEOUT)"
proof -
  have h1: "message (textMessage ''u1'' ''Terima KASIH'') =
              Some \<lparr>conversation = Some ''Terima KASIH'', extendedTextMessage = None\<rparr>"
    "\<not> fromMe (textMessage ''u1'' ''Terima KASIH'')"
    "conversations handoffWorld (remoteJid (textMessage ''u1'' ''Terima KASIH'')) = Some 0"
    "csActive (heap handoffWorld 0)"
    by (simp_all add: handoffWorld_def exampleWorld_def)
  have h2: "message (textMessage ''u1'' ''halo'') =
              Some \<lparr>conversation = Some ''halo'', extendedTextMessage = None\<rparr>"
    "\<not> fromMe (textMessage ''u1'' ''halo'')"
    "conversations handoffWorld (remoteJid (textMessage ''u1'' ''halo'')) = Some 0"
    "csActive (heap handoffWorld 0)"
    by (simp_all add: handoffWorld_def exampleWorld_def)
  have h3: "message (textMessage ''u1'' kelvinThanks) =
              Some \<lparr>conversation = Some kelvinThanks, extendedTextMessage = None\<rparr>"
    "\<not> fromMe (textMessage ''u1'' kelvinThanks)"
    "conversations handoffWorld (remoteJid (textMessage ''u1'' kelvinThanks)) = Some 0"
    "csActive (heap handoffWorld 0)"
    by (simp_all add: handoffWorld_def exampleWorld_def)
  have st: "state (heap handoffWorld 0) = ''info''" "timeout (heap handoffWorld 0) = Some 0"
    "nextTimer handoffWorld = 1" "sent (trace handoffWorld) = []"
    "toLowerCase handoffWorld = lowerCaseUtf8"
    by (simp_all add: handoffWorld_def exampleWorld_def)
  from handoff_mode [OF h1, of "''t''"] handoff_mode [OF h2, of "''t''"]
    handoff_mode [OF h3, of "''t''"] h1 h2 h3 st
  show ?thesis
    by (simp add: lowerCaseUtf8_mixed lowerCaseUtf8_other lowerCaseUtf8_kelvin)
qed

text \<open>
  C8. The first message of a counterparty that is not in the store creates a
  conversation in state main with the handoff flag off, and is answered by exactly one
  message: the welcome line followed by the main menu (and the bot signature),
  whatever the text of the message.
\<close>

theorem first_contact:
  assumes "message m = Some p" and "\<not> fromMe m"
    and "conversations w (remoteJid m) = None"
  shows "conversations (handleMessage w ts m) (remoteJid m) = Some (nextAddr w)
       \<and> state (heap (handleMessage w ts m) (nextAddr w)) = ''main''
       \<and> \<not> csActive (heap (handleMessage w ts m) (nextAddr w))
       \<and> sent (trace (handleMessage w ts m)) =
           sent (trace w) @
           [(remoteJid m, welcomeLine @ formatMenu ''Menu'' MENUS_main @ botSignature)]"
  using assms by (simp add: handleMessage_def Let_def newConversation_def)

theorem first_contact_witness:
  "message (textMessage ''u2'' ''1'') =
     Some \<lparr>conversation = Some ''1'', extendedTextMessage = None\<rparr>
   \<and> \<not> fromMe (textMessage ''u2'' ''1'')
   \<and> conversations exampleWorld (remoteJid (textMessage ''u2'' ''1'')) = None
   \<and> conversations (handleMessage exampleWorld ''t'' (textMessage ''u2'' ''1'')) ''u2'' = Some 1
   \<and> state (heap (handleMessage exampleWorld ''t'' (textMessage ''u2'' ''1'')) 1) = ''main''
   \<and> \<not> csActive (heap (handleMessage exampleWorld ''t'' (textMessage ''u2'' ''1'')) 1)
   \<and> sent (trace (handleMessage exampleWorld ''t'' (textMessage ''u2'' ''1''))) =
       [(''u2'',
         ''Halo! Selamat datang.\<newline>Menu:\<newline>1. Info\<newline>2. Chat dengan CS\<newline>3. Akhiri percakapan\<newline>4. Dummy Menu\<newline>5. Produk\<newline>\<newline>chat digenerate oleh bot'')]"
proof -
  have h: "message (textMessage ''u2'' ''1'') =
             Some \<lparr>conversation = Some ''1'', extendedTextMessage = None\<rparr>"
    "\<not> fromMe (textMessage ''u2'' ''1'')"
    "conversations exampleWorld (remoteJid (textMessage ''u2'' ''1'')) = None"
    by (simp_all add: exampleWorld_def)
  have st: "nextAddr exampleWorld = 1" "sent (trace exampleWorld) = []"
    by (simp_all add: exampleWorld_def)
  from first_contact [OF h, of "''t''"] h st show ?thesis
    by (simp add: formatMenu_main welcomeLine_def botSignature_def)
qed

subsection \<open>The upsert listener\<close>

text \<open>
  C10. Of a batch of type notify with at least one message, the listener hands the
  first message to \<^verbatim>\<open>handleMessage\<close> and nothing else: the outcome is the one of the
  batch that holds the first message alone, so the other messages are neither logged
  nor answered and change no state.
\<close>

theorem upsert_first_only:
  "onMessagesUpsert w ts \<lparr>messages = Some (x # xs), upsertType = ''notify''\<rparr> =
     Inr (handleMessage w ts x)
   \<and> onMessagesUpsert w ts \<lparr>messages = Some (x # xs), upsertType = ''notify''\<rparr> =
     onMessagesUpsert w ts \<lparr>messages = Some [x], upsertType = ''notify''\<rparr>"
  by (simp add: onMessagesUpsert_def)

subsection \<open>The logging sink\<close>

text \<open>
  C3, as stated, fails: \<^verbatim>\<open>sendMessage\<close> never calls \<^verbatim>\<open>appendChatLog\<close>. A
  conversation in the main menu that receives "1" is sent one reply, and no append of
  sender kind bot is made.
\<close>

theorem bot_reply_logged_counterexample:
  "length (sent (trace (handleMessage exampleWorld ''t'' (textMessage ''u1'' ''1'')))) = 1
   \<and> length (botAppends (trace (handleMessage exampleWorld ''t'' (textMessage ''u1'' ''1'')))) = 0"
  by (simp add: handleMessage_def Let_def handleMainMenu_def exampleWorld_def botAppends_def)

text \<open>
  C3, amended. Every processed inbound message (one that has a payload and is not the
  bot's own) makes exactly one call of the sink, of sender kind user, with the
  counterparty and the inbound text; whatever the bot replies, no call of sender kind
  bot is made.
\<close>

theorem inbound_logged_once:
  assumes "message m = Some p" and "\<not> fromMe m"
  shows "sinkCalls (trace (handleMessage w ts m)) =
           sinkCalls (trace w) @
           [\<lparr>rowTimestamp = ts, rowFrom = remoteJid m, rowMessage = extractText p,
              rowSenderType = ''user''\<rparr>]
         \<and> userAppends (trace (handleMessage w ts m)) =
           userAppends (trace w) @
           [\<lparr>rowTimestamp = ts, rowFrom = remoteJid m, rowMessage = extractText p,
              rowSenderType = ''user''\<rparr>]
         \<and> botAppends (trace (handleMessage w ts m)) = botAppends (trace w)"
proof -
  have "sinkCalls (trace (handleMessage w ts m)) =
           sinkCalls (trace w) @
           [\<lparr>rowTimestamp = ts, rowFrom = remoteJid m, rowMessage = extractText p,
              rowSenderType = ''user''\<rparr>]"
    using assms
    by (simp add: handleMessage_def Let_def handler_defs newConversation_def split: option.split)
  then show ?thesis
    by (simp add: botAppends_def userAppends_def)
qed

theorem inbound_logged_once_witness:
  "message (textMessage ''u1'' ''1'') =
     Some \<lparr>conversation = Some ''1'', extendedTextMessage = None\<rparr>
   \<and> \<not> fromMe (textMessage ''u1'' ''1'')
   \<and> sinkCalls (trace (handleMessage exampleWorld ''t'' (textMessage ''u1'' ''1''))) =
       [\<lparr>rowTimestamp = ''t'', rowFrom = ''u1'', rowMessage = ''1'', rowSenderType = ''user''\<rparr>]
   \<and> userAppends (trace (handleMessage exampleWorld ''t'' (textMessage ''u1'' ''1''))) =
       [\<lparr>rowTimestamp = ''t'', rowFrom = ''u1'', rowMessage = ''1'', rowSenderType = ''user''\<rparr>]
   \<and> botAppends (trace (handleMessage exampleWorld ''t'' (textMessage ''u1'' ''1''))) = []"
proof -
  have h: "message (textMessage ''u1'' ''1'') =
             Some \<lparr>conversation = Some ''1'', extendedTextMessage = None\<rparr>"
    "\<not> fromMe (textMessage ''u1'' ''1'')"
    by simp_all
  from inbound_logged_once [OF h, of exampleWorld "''t''"] h show ?thesis
    by (simp add: exampleWorld_def botAppends_def userAppends_def)
qed

text \<open>
  C6. With the default retry count of 3, one call of \<^verbatim>\<open>appendChatLog\<close> does nothing
  to the spreadsheet when the client was never initialised; otherwise it attempts the
  append until the first success and at most three times, logs each failure, waits
  1000 ms after the first failure and 2000 ms after the second, and after the third
  logs that the retries are exhausted and returns. It always returns, with at most
  three attempts made. What \<^verbatim>\<open>handleMessage\<close> then sends, and what it does to the
  store and to the conversations, is the same whether the client is initialised or
  not and whichever appends fail.
\<close>

theorem appendChatLog_retries:
  "(let r = \<lparr>rowTimestamp = ts, rowFrom = j, rowMessage = t, rowSenderType = k\<rparr>;
        n = appendN w
    in trace (appendChatLog w ts j t k 3) =
         trace w @ SinkCall r #
         (if \<not> sheets w then []
          else if appendOk w n then [Append 1 r]
          else if appendOk w (n + 1) then [Append 1 r, appendError 1, Wait 1000, Append 2 r]
          else if appendOk w (n + 2) then
            [Append 1 r, appendError 1, Wait 1000, Append 2 r, appendError 2, Wait 2000,
             Append 3 r]
          else
            [Append 1 r, appendError 1, Wait 1000, Append 2 r, appendError 2, Wait 2000,
             Append 3 r, appendError 3, maxRetriesError]))
   \<and> attempts (trace (appendChatLog w ts j t k 3)) \<le> attempts (trace w) + 3
   \<and> sent (trace (handleMessage (w\<lparr>sheets := b, appendOk := f\<rparr>) ts' m)) =
       sent (trace (handleMessage w ts' m))
   \<and> conversations (handleMessage (w\<lparr>sheets := b, appendOk := f\<rparr>) ts' m) =
       conversations (handleMessage w ts' m)
   \<and> heap (handleMessage (w\<lparr>sheets := b, appendOk := f\<rparr>) ts' m) = heap (handleMessage w ts' m)"
proof -
  let ?r = "\<lparr>rowTimestamp = ts, rowFrom = j, rowMessage = t, rowSenderType = k\<rparr>"
  have tr: "trace (appendChatLog w ts j t k 3) =
              trace w @ SinkCall ?r #
              (if \<not> sheets w then [] else appendLoop (appendOk w) (appendN w) 1 3 ?r)"
    by (simp add: appendChatLog_def Let_def)
  have "attempts (appendLoop (appendOk w) (appendN w) 1 3 ?r) \<le> 3"
    using attempts_appendLoop [of "appendOk w" "appendN w" 1 3 ?r] by simp
  then have le: "attempts (trace (appendChatLog w ts j t k 3)) \<le> attempts (trace w) + 3"
    by (simp add: tr)
  have ex: "trace (appendChatLog w ts j t k 3) =
         trace w @ SinkCall ?r #
         (if \<not> sheets w then []
          else if appendOk w (appendN w) then [Append 1 ?r]
          else if appendOk w (appendN w + 1) then
            [Append 1 ?r, appendError 1, Wait 1000, Append 2 ?r]
          else if appendOk w (appendN w + 2) then
            [Append 1 ?r, appendError 1, Wait 1000, Append 2 ?r, appendError 2, Wait 2000,
             Append 3 ?r]
          else
            [Append 1 ?r, appendError 1, Wait 1000, Append 2 ?r, appendError 2, Wait 2000,
             Append 3 ?r, appendError 3, maxRetriesError])"
    by (simp only: tr appendLoop_default)
  show ?thesis
    unfolding Let_def
    by (intro conjI)
      (rule ex, rule le, rule handleMessage_sent_env, rule handleMessage_conversations_env,
        rule handleMessage_heap_env)
qed

text \<open>
  A spreadsheet whose first two appends fail: two failures logged, the waits of 1000
  and 2000 ms, and the third attempt succeeds.
\<close>

theorem appendChatLog_retries_witness:
  "trace (appendChatLog flakyWorld ''t'' ''u1'' ''hi'' ''user'' 3) =
     [SinkCall \<lparr>rowTimestamp = ''t'', rowFrom = ''u1'', rowMessage = ''hi'', rowSenderType = ''user''\<rparr>,
      Append 1 \<lparr>rowTimestamp = ''t'', rowFrom = ''u1'', rowMessage = ''hi'', rowSenderType = ''user''\<rparr>,
      LogError ''Error appending chat log (attempt 1):'',
      Wait 1000,
      Append 2 \<lparr>rowTimestamp = ''t'', rowFrom = ''u1'', rowMessage = ''hi'', rowSenderType = ''user''\<rparr>,
      LogError ''Error appending chat log (attempt 2):'',
      Wait 2000,
      Append 3 \<lparr>rowTimestamp = ''t'', rowFrom = ''u1'', rowMessage = ''hi'', rowSenderType = ''user''\<rparr>]
   \<and> attempts (trace (appendChatLog flakyWorld ''t'' ''u1'' ''hi'' ''user'' 3)) = 3"
proof -
  note retries =
    appendChatLog_retries [where w = flakyWorld and ts = "''t''" and j = "''u1''"
      and t = "''hi''" and k = "''user''"]
  have tr: "trace (appendChatLog flakyWorld ''t'' ''u1'' ''hi'' ''user'' 3) =
     [SinkCall \<lparr>rowTimestamp = ''t'', rowFrom = ''u1'', rowMessage = ''hi'', rowSenderType = ''user''\<rparr>,
      Append 1 \<lparr>rowTimestamp = ''t'', rowFrom = ''u1'', rowMessage = ''hi'', rowSenderType = ''user''\<rparr>,
      LogError ''Error appending chat log (attempt 1):'',
      Wait 1000,
      Append 2 \<lparr>rowTimestamp = ''t'', rowFrom = ''u1'', rowMessage = ''hi'', rowSenderType = ''user''\<rparr>,
      LogError ''Error appending chat log (attempt 2):'',
      Wait 2000,
      Append 3 \<lparr>rowTimestamp = ''t'', rowFrom = ''u1'', rowMessage = ''hi'', rowSenderType = ''user''\<rparr>]"
    using retries [THEN conjunct1]
    by (simp add: Let_def flakyWorld_def exampleWorld_def appendError_def showNat_digits)
  show ?thesis
    by (simp add: tr)
qed

subsection \<open>The inactivity timer\<close>

text \<open>
  C4, as stated, fails: the callback passes \<^verbatim>\<open>true\<close> for \<^verbatim>\<open>isBot\<close>, so the notice
  goes out with the bot signature appended, not bare.
\<close>

theorem inactivity_notice_unsuffixed_counterexample:
  "timers exampleWorld 0 = Some (''u1'', INACTIVITY_TIMEOUT)
   \<and> sent (trace (fireTimer exampleWorld 0)) \<noteq> [(''u1'', inactivityNotice)]
   \<and> sent (trace (fireTimer exampleWorld 0)) = [(''u1'', inactivityNotice @ botSignature)]"
  by (simp add: fireTimer_def Let_def exampleWorld_def botSignature_def)

text \<open>
  C4, amended. When a live inactivity timer fires, exactly one message is sent to its
  counterparty, the inactivity notice with the bot signature appended, the
  counterparty's conversation is removed from the store, and the timer is no longer
  live.
\<close>

theorem inactivity_fire:
  assumes "timers w t = Some (j, d)"
  shows "sent (trace (fireTimer w t)) = sent (trace w) @ [(j, inactivityNotice @ botSignature)]
         \<and> conversations (fireTimer w t) j = None
         \<and> timers (fireTimer w t) t = None"
  using assms by (simp add: fireTimer_def Let_def)

theorem inactivity_fire_witness:
  "timers exampleWorld 0 = Some (''u1'', INACTIVITY_TIMEOUT)
   \<and> sent (trace (fireTimer exampleWorld 0)) = [(''u1'', inactivityNotice @ botSignature)]
   \<and> conversations (fireTimer exampleWorld 0) ''u1'' = None
   \<and> timers (fireTimer exampleWorld 0) 0 = None"
proof -
  have h: "timers exampleWorld 0 = Some (''u1'', INACTIVITY_TIMEOUT)"
    by (simp add: exampleWorld_def)
  from inactivity_fire [OF h] h show ?thesis
    by (simp add: exampleWorld_def)
qed

text \<open>
  C5, what the script does. After "3" in the main menu the conversation is removed from
  the store, and then \<^verbatim>\<open>conv.resetTimeout\<close> runs on the removed object: it clears the
  old timer and arms a fresh one for the counterparty. So a live timer remains, and
  when it fires the counterparty is sent the inactivity notice.
\<close>

theorem end_conversation_leaves_timer:
  assumes "message m = Some p" and "\<not> fromMe m"
    and "conversations w (remoteJid m) = Some a"
    and "state (heap w a) = ''main''" and "\<not> csActive (heap w a)"
    and "extractText p = ''3''"
  shows "conversations (handleMessage w ts m) (remoteJid m) = None
         \<and> timers (handleMessage w ts m) (nextTimer w) = Some (remoteJid m, INACTIVITY_TIMEOUT)
         \<and> sent (trace (fireTimer (handleMessage w ts m) (nextTimer w))) =
             sent (trace (handleMessage w ts m)) @
             [(remoteJid m, inactivityNotice @ botSignature)]"
proof -
  have live: "conversations (handleMessage w ts m) (remoteJid m) = None
      \<and> timers (handleMessage w ts m) (nextTimer w) = Some (remoteJid m, INACTIVITY_TIMEOUT)"
    using assms by (simp add: handleMessage_def Let_def handleMainMenu_def)
  then show ?thesis
    by (simp add: fireTimer_def Let_def)
qed

theorem end_conversation_leaves_timer_witness:
  "message (textMessage ''u1'' ''3'') =
     Some \<lparr>conversation = Some ''3'', extendedTextMessage = None\<rparr>
   \<and> \<not> fromMe (textMessage ''u1'' ''3'')
   \<and> conversations exampleWorld (remoteJid (textMessage ''u1'' ''3'')) = Some 0
   \<and> state (heap exampleWorld 0) = ''main'' \<and> \<not> csActive (heap exampleWorld 0)
   \<and> extractText \<lparr>conversation = Some ''3'', extendedTextMessage = None\<rparr> = ''3''
   \<and> conversations (handleMessage exampleWorld ''t'' (textMessage ''u1'' ''3'')) ''u1'' = None
   \<and> timers (handleMessage exampleWorld ''t'' (textMessage ''u1'' ''3'')) 1 =
       Some (''u1'', INACTIVITY_TIMEOUT)
   \<and> sent (trace (fireTimer (handleMessage exampleWorld ''t'' (textMessage ''u1'' ''3'')) 1)) =
       [(''u1'', ''Percakapan diakhiri. Terima kasih.'' @ botSignature),
        (''u1'', inactivityNotice @ botSignature)]"
proof -
  have h: "message (textMessage ''u1'' ''3'') =
             Some \<lparr>conversation = Some ''3'', extendedTextMessage = None\<rparr>"
    "\<not> fromMe (textMessage ''u1'' ''3'')"
    "conversations exampleWorld (remoteJid (textMessage ''u1'' ''3'')) = Some 0"
    "state (heap exampleWorld 0) = ''main''" "\<not> csActive (heap exampleWorld 0)"
    "extractText \<lparr>conversation = Some ''3'', extendedTextMessage = None\<rparr> = ''3''"
    by (simp_all add: exampleWorld_def)
  have st: "nextTimer exampleWorld = 1"
    "sent (trace (handleMessage exampleWorld ''t'' (textMessage ''u1'' ''3''))) =
       [(''u1'', ''Percakapan diakhiri. Terima kasih.'' @ botSignature)]"
    by (simp_all add: exampleWorld_def handleMessage_def Let_def handleMainMenu_def)
  from end_conversation_leaves_timer [OF h, of "''t''"] h st show ?thesis
    by simp
qed

end
